theory Spec2Isabelle
  imports Complex_Main
begin

section \<open>Python values used by the sync engines\<close>

text \<open>
  Python floats are modelled as the reals they approximate (no rounding, no overflow,
  no NaN); Python integers are \<open>int\<close>. Exceptions are values of \<open>py_error\<close>:
  the built-in ones the sources raise, \<open>DeviceError\<close> for whatever the device client
  raises on a failed network operation, and \<open>LoopError\<close> for the exception with which
  an engine's background task ended, as re-raised by \<^verbatim>\<open>await self._task\<close>.
\<close>

datatype py_error =
  IndexError
  | ZeroDivisionError
  | TypeError
  | ValueError string
  | RuntimeError string
  | DeviceError
  | LoopError

text \<open>\<^verbatim>\<open>int(x)\<close> on a float truncates toward zero.\<close>

definition py_int :: "real \<Rightarrow> int" where
  "py_int x = (if 0 \<le> x then \<lfloor>x\<rfloor> else \<lceil>x\<rceil>)"

text \<open>\<^verbatim>\<open>x % m\<close> on floats: the remainder has the sign of the divisor.\<close>

definition py_mod :: "real \<Rightarrow> real \<Rightarrow> real" where
  "py_mod x m = x - m * of_int \<lfloor>x / m\<rfloor>"

text \<open>
  \<^verbatim>\<open>x ** g\<close> on floats: anything to the power 0 is 1, zero to a negative power
  raises, a negative base with a fractional exponent gives a complex number (which the
  caller's \<^verbatim>\<open>int(...)\<close> rejects with a TypeError). With numpy scalars as operands
  the same inputs fail as well, with other exception classes.
\<close>

definition py_pow :: "real \<Rightarrow> real \<Rightarrow> py_error + real" where
  "py_pow x g =
     (if g = 0 then Inr 1
      else if x = 0 then (if g < 0 then Inl ZeroDivisionError else Inr 0)
      else if 0 < x then Inr (x powr g)
      else if g = of_int \<lfloor>g\<rfloor> then Inr (x powi \<lfloor>g\<rfloor>)
      else Inl TypeError)"

section \<open>screen\_sync.py: interpolation and gamma correction\<close>

definition lerp :: "real \<Rightarrow> real \<Rightarrow> real \<Rightarrow> real" where
  "lerp start end factor = start + (end - start) * factor"

definition lerp_hue :: "real \<Rightarrow> real \<Rightarrow> real \<Rightarrow> real" where
  "lerp_hue start end factor =
     (let diff = end - start;
          start' = (if \<bar>diff\<bar> > 180 \<and> end > start then start + 360 else start);
          end' = (if \<bar>diff\<bar> > 180 \<and> \<not> end > start then end + 360 else end);
          result = lerp start' end' factor
      in py_mod result 360)"

definition gamma_channel :: "int \<Rightarrow> real \<Rightarrow> py_error + int" where
  "gamma_channel c gamma =
     (case py_pow (real_of_int c / 255) gamma of
        Inl e \<Rightarrow> Inl e
      | Inr p \<Rightarrow> Inr (py_int (255 * p)))"

definition apply_gamma_correction :: "int \<times> int \<times> int \<Rightarrow> real \<Rightarrow> py_error + int \<times> int \<times> int" where
  "apply_gamma_correction color gamma =
     (case color of (r, g, b) \<Rightarrow>
        (case gamma_channel r gamma of
           Inl e \<Rightarrow> Inl e
         | Inr r' \<Rightarrow>
             (case gamma_channel g gamma of
                Inl e \<Rightarrow> Inl e
              | Inr g' \<Rightarrow>
                  (case gamma_channel b gamma of
                     Inl e \<Rightarrow> Inl e
                   | Inr b' \<Rightarrow> Inr (r', g', b')))))"

text \<open>
  The signed sweep of a circular interpolation along the shorter arc: the difference of
  the two hues, turned by a full circle when it is longer than half a circle.
\<close>

definition shorter_sweep :: "real \<Rightarrow> real \<Rightarrow> real" where
  "shorter_sweep start end =
     (if \<bar>end - start\<bar> > 180
      then (if end > start then end - start - 360 else end - start + 360)
      else end - start)"

section \<open>audio\_sync.py: AdaptiveEnergy\<close>

text \<open>
  \<^verbatim>\<open>deque(maxlen=m).append(x)\<close>: append on the right and drop from the left
  whatever exceeds the capacity.
\<close>

definition deque_append :: "nat \<Rightarrow> real list \<Rightarrow> real \<Rightarrow> real list" where
  "deque_append m h x = (let h' = h @ [x] in drop (length h' - m) h')"

text \<open>
  \<^verbatim>\<open>numpy.median\<close> and \<^verbatim>\<open>numpy.percentile\<close> (default linear
  interpolation between the two nearest ranks) on a non-empty array; the source only
  calls them on histories of at least 20 samples.
\<close>

definition np_median :: "real list \<Rightarrow> real" where
  "np_median xs =
     (let s = sort xs; n = length s
      in if odd n then s ! (n div 2) else (s ! (n div 2 - 1) + s ! (n div 2)) / 2)"

definition np_percentile :: "real list \<Rightarrow> real \<Rightarrow> real" where
  "np_percentile xs q =
     (let s = sort xs; n = length s;
          pos = q / 100 * real (n - 1);
          lo = nat \<lfloor>pos\<rfloor>;
          hi = min (lo + 1) (n - 1)
      in s ! lo + (pos - real lo) * (s ! hi - s ! lo))"

text \<open>\<^verbatim>\<open>numpy.clip(x, lo, hi)\<close>.\<close>

definition np_clip :: "real \<Rightarrow> real \<Rightarrow> real \<Rightarrow> real" where
  "np_clip x lo hi = min (max x lo) hi"

record adaptive_energy =
  band_hist :: "real list list"
  maxlen :: nat

definition AdaptiveEnergy_init :: "nat \<Rightarrow> nat \<Rightarrow> adaptive_energy" where
  "AdaptiveEnergy_init num_bands m = \<lparr>band_hist = replicate num_bands [], maxlen = m\<rparr>"

text \<open>
  The body of the loop of \<^verbatim>\<open>update_and_normalize\<close> for one band, after the
  append: the value appended to \<^verbatim>\<open>normalized\<close>.
\<close>

definition band_value :: "real list \<Rightarrow> real \<Rightarrow> real" where
  "band_value h energy =
     (if length h < 20 then 0
      else
        (let med = np_median h;
             p90 = np_percentile h 90;
             norm_val = (if p90 \<le> med then 0
                         else np_clip ((energy - med) / (p90 - med + 1 / 10 ^ 9)) 0 2)
         in tanh norm_val))"

text \<open>
  The loop \<^verbatim>\<open>for i, energy in enumerate(band_energies)\<close>. The histories are
  mutated in place, so they are returned also when \<^verbatim>\<open>self._band_hist[i]\<close>
  raises for an index past the last band.
\<close>

fun normalize_loop ::
  "nat \<Rightarrow> nat \<Rightarrow> real list list \<Rightarrow> real list \<Rightarrow> real list \<Rightarrow> real list list \<times> (py_error + real list)"
where
  "normalize_loop m i hist [] normalized = (hist, Inr normalized)"
| "normalize_loop m i hist (energy # rest) normalized =
     (if length hist \<le> i then (hist, Inl IndexError)
      else
        (let h = deque_append m (hist ! i) energy
         in normalize_loop m (Suc i) (hist[i := h]) rest (normalized @ [band_value h energy])))"

definition update_and_normalize ::
  "adaptive_energy \<Rightarrow> real list \<Rightarrow> adaptive_energy \<times> (py_error + real list)"
where
  "update_and_normalize st band_energies =
     (case normalize_loop (maxlen st) 0 (band_hist st) band_energies [] of
        (hist, res) \<Rightarrow> (st\<lparr>band_hist := hist\<rparr>, res))"




text \<open>
  The class invariant of the histories: a deque never holds more than its capacity.
\<close>

definition hist_bounded :: "adaptive_energy \<Rightarrow> bool" where
  "hist_bounded st \<longleftrightarrow> (\<forall>h \<in> set (band_hist st). length h \<le> maxlen st)"


section \<open>config.py: settings\<close>

text \<open>Sizes (\<^verbatim>\<open>num_bands\<close>, \<^verbatim>\<open>history_len\<close>) are taken non-negative.\<close>

record audio_settings =
  device_id :: int
  chunk :: int
  num_bands :: nat
  update_interval :: real
  history_len :: nat

definition AudioSettings :: audio_settings where
  "AudioSettings =
     \<lparr>device_id = 14, chunk = 1024, num_bands = 10, update_interval = 5 / 100, history_len = 300\<rparr>"

record screen_settings =
  refresh_rate :: int
  smoothing_factor :: real
  gamma_correction :: real
  saturation_boost :: real
  min_brightness :: int
  max_brightness :: int
  power_factor :: real
  monitor_index :: int

definition ScreenSettings :: screen_settings where
  "ScreenSettings =
     \<lparr>refresh_rate = 60, smoothing_factor = 4 / 10, gamma_correction = 12 / 10,
      saturation_boost = 15 / 10, min_brightness = 10, max_brightness = 80,
      power_factor = 18 / 10, monitor_index = 1\<rparr>"

section \<open>The engines' start and stop\<close>

datatype sync_mode = AUDIO | SCREEN

text \<open>
  What a call does to the outside world, in order: background tasks created and
  awaited, and the calls made on the device client and the discovery scan.
\<close>

datatype action =
  SpawnLoop sync_mode
  | JoinLoop sync_mode
  | Discover
  | Connect string
  | PowerOn
  | PowerOff

text \<open>
  The result of a call: the exception it raised (if any), what it did, and the object
  afterwards (a raising call keeps the mutations made before the raise).
\<close>

record 's outcome =
  raised :: "py_error option"
  acts :: "action list"
  after :: 's

definition returned :: "'s \<Rightarrow> 's outcome" where
  "returned s = \<lparr>raised = None, acts = [], after = s\<rparr>"

definition returned_after :: "action list \<Rightarrow> 's \<Rightarrow> 's outcome" where
  "returned_after as s = \<lparr>raised = None, acts = as, after = s\<rparr>"

definition raising :: "py_error \<Rightarrow> action list \<Rightarrow> 's \<Rightarrow> 's outcome" where
  "raising e as s = \<lparr>raised = Some e, acts = as, after = s\<rparr>"

text \<open>Sequencing of two awaited calls: the second runs only if the first returned.\<close>

definition and_then :: "'s outcome \<Rightarrow> ('s \<Rightarrow> 's outcome) \<Rightarrow> 's outcome" where
  "and_then r f =
     (case raised r of
        Some e \<Rightarrow> r
      | None \<Rightarrow> (let r' = f (after r) in r'\<lparr>acts := acts r @ acts r'\<rparr>))"

text \<open>
  An \<^verbatim>\<open>asyncio.Task\<close> running an engine's loop: not done, or done because the
  loop raised. (The loops only return once the stop event is set, and \<^verbatim>\<open>stop\<close>
  then clears the field.)
\<close>

datatype task = Pending | Raised

record audio_engine =
  a_settings :: audio_settings
  a_stop_event :: "bool option"
  a_task :: "task option"
  a_energy_norm :: adaptive_energy

record screen_engine =
  s_settings :: screen_settings
  s_stop_event :: "bool option"
  s_task :: "task option"
  user_brightness :: int
  current_hue :: real
  current_sat :: real
  current_brightness :: real

text \<open>
  \<^verbatim>\<open>AudioSyncEngine.__init__\<close>; \<open>pyaudio_present\<close> says whether the module-level
  import of a capture backend succeeded.
\<close>

definition AudioSyncEngine_init :: "bool \<Rightarrow> audio_settings \<Rightarrow> py_error + audio_engine" where
  "AudioSyncEngine_init pyaudio_present settings =
     (if \<not> pyaudio_present
      then Inl (RuntimeError ''PyAudio is required for audio sync. Install pyaudio or pyaudiowpatch.'')
      else if num_bands settings \<noteq> 10
      then Inl (ValueError ''Only 10-band audio analysis is supported.'')
      else Inr \<lparr>a_settings = settings, a_stop_event = None, a_task = None,
                a_energy_norm = AdaptiveEnergy_init (num_bands settings) (history_len settings)\<rparr>)"

definition ScreenSyncEngine_init :: "screen_settings \<Rightarrow> screen_engine" where
  "ScreenSyncEngine_init settings =
     \<lparr>s_settings = settings, s_stop_event = None, s_task = None, user_brightness = 80,
      current_hue = 0, current_sat = 50, current_brightness = 60\<rparr>"

definition set_user_brightness :: "int \<Rightarrow> screen_engine \<Rightarrow> screen_engine" where
  "set_user_brightness v e = e\<lparr>user_brightness := max 1 (min 100 v)\<rparr>"

definition audio_start :: "audio_engine \<Rightarrow> audio_engine outcome" where
  "audio_start e =
     (if a_task e = Some Pending then returned e
      else returned_after [SpawnLoop AUDIO] (e\<lparr>a_stop_event := Some False, a_task := Some Pending\<rparr>))"

definition audio_stop :: "audio_engine \<Rightarrow> audio_engine outcome" where
  "audio_stop e =
     (case a_task e of
        None \<Rightarrow> returned e
      | Some t \<Rightarrow>
          (let e' = (case a_stop_event e of None \<Rightarrow> e | Some _ \<Rightarrow> e\<lparr>a_stop_event := Some True\<rparr>)
           in case t of
                Pending \<Rightarrow> returned_after [JoinLoop AUDIO] (e'\<lparr>a_task := None\<rparr>)
              | Raised \<Rightarrow> raising LoopError [JoinLoop AUDIO] e'))"

definition screen_start :: "screen_engine \<Rightarrow> screen_engine outcome" where
  "screen_start e =
     (if s_task e = Some Pending then returned e
      else returned_after [SpawnLoop SCREEN] (e\<lparr>s_stop_event := Some False, s_task := Some Pending\<rparr>))"

definition screen_stop :: "screen_engine \<Rightarrow> screen_engine outcome" where
  "screen_stop e =
     (case s_task e of
        None \<Rightarrow> returned e
      | Some t \<Rightarrow>
          (let e' = (case s_stop_event e of None \<Rightarrow> e | Some _ \<Rightarrow> e\<lparr>s_stop_event := Some True\<rparr>)
           in case t of
                Pending \<Rightarrow> returned_after [JoinLoop SCREEN] (e'\<lparr>s_task := None\<rparr>)
              | Raised \<Rightarrow> raising LoopError [JoinLoop SCREEN] e'))"

section \<open>tapo\_controller.py and sync\_manager.py: the coordinator\<close>

text \<open>
  The controller's fields. Whether a network operation of the device client succeeds is
  not decided by the program: each call takes it as an argument. The controller belongs
  to one coordinator, so its methods are written as steps of the coordinator.
\<close>

record controller =
  has_client :: bool
  has_device :: bool
  ctl_device_ip :: "string option"

record coordinator =
  ctl :: controller
  audio_engine :: "audio_engine option"
  screen_engine :: "screen_engine option"
  active_mode :: "sync_mode option"

definition SyncCoordinator_init :: coordinator where
  "SyncCoordinator_init =
     \<lparr>ctl = \<lparr>has_client = False, has_device = False, ctl_device_ip = None\<rparr>,
      audio_engine = None, screen_engine = None, active_mode = None\<rparr>"

text \<open>\<^verbatim>\<open>if not ip\<close> on an optional string: \<^verbatim>\<open>None\<close> and the empty string are false.\<close>

definition truthy :: "string option \<Rightarrow> bool" where
  "truthy ip = (case ip of None \<Rightarrow> False | Some s \<Rightarrow> s \<noteq> [])"

definition connect :: "string \<Rightarrow> bool \<Rightarrow> coordinator \<Rightarrow> coordinator outcome" where
  "connect device_ip ok c =
     (if has_device (ctl c) \<and> ctl_device_ip (ctl c) = Some device_ip then returned c
      else if ok
      then returned_after [Connect device_ip]
             (c\<lparr>ctl := \<lparr>has_client = True, has_device = True, ctl_device_ip = Some device_ip\<rparr>\<rparr>)
      else raising DeviceError [Connect device_ip] (c\<lparr>ctl := (ctl c)\<lparr>has_client := True\<rparr>\<rparr>))"

definition ensure_on :: "bool \<Rightarrow> coordinator \<Rightarrow> coordinator outcome" where
  "ensure_on ok c =
     (if \<not> has_device (ctl c) then raising (RuntimeError ''Device not connected.'') [] c
      else if ok then returned_after [PowerOn] c
      else raising DeviceError [PowerOn] c)"

text \<open>
  \<^verbatim>\<open>ensure_off\<close>, and the statement
  \<^verbatim>\<open>try: await self._controller.ensure_off() except Exception: pass\<close> of
  \<^verbatim>\<open>SyncCoordinator.stop\<close>, which swallows its failure.
\<close>

definition ensure_off :: "bool \<Rightarrow> coordinator \<Rightarrow> coordinator outcome" where
  "ensure_off ok c =
     (if \<not> has_device (ctl c) then returned c
      else if ok then returned_after [PowerOff] c
      else raising DeviceError [PowerOff] c)"

definition try_ensure_off :: "bool \<Rightarrow> coordinator \<Rightarrow> coordinator outcome" where
  "try_ensure_off ok c = (let r = ensure_off ok c in returned_after (acts r) (after r))"

definition stop_audio :: "coordinator \<Rightarrow> coordinator outcome" where
  "stop_audio c =
     (case audio_engine c of
        None \<Rightarrow> returned c
      | Some e \<Rightarrow>
          (let r = audio_stop e
           in case raised r of
                Some err \<Rightarrow> raising err (acts r) (c\<lparr>audio_engine := Some (after r)\<rparr>)
              | None \<Rightarrow> returned_after (acts r) (c\<lparr>audio_engine := None\<rparr>)))"

definition stop_screen :: "coordinator \<Rightarrow> coordinator outcome" where
  "stop_screen c =
     (case screen_engine c of
        None \<Rightarrow> returned c
      | Some e \<Rightarrow>
          (let r = screen_stop e
           in case raised r of
                Some err \<Rightarrow> raising err (acts r) (c\<lparr>screen_engine := Some (after r)\<rparr>)
              | None \<Rightarrow> returned_after (acts r) (c\<lparr>screen_engine := None\<rparr>)))"

definition stop :: "bool \<Rightarrow> coordinator \<Rightarrow> coordinator outcome" where
  "stop ok c =
     and_then (stop_audio c) (\<lambda>c.
     and_then (stop_screen c) (\<lambda>c.
     and_then (try_ensure_off ok c) (\<lambda>c.
     returned (c\<lparr>active_mode := None\<rparr>))))"

text \<open>
  What \<^verbatim>\<open>start\<close> finds outside the program: whether the power-off of its
  preliminary \<^verbatim>\<open>stop\<close> succeeds, the address the discovery scan returns if it is
  run, whether connecting and powering on succeed, and whether a capture backend was
  imported.
\<close>

record start_env =
  off_ok :: bool
  discovered :: "string option"
  connect_ok :: bool
  on_ok :: bool
  pyaudio_present :: bool

definition start_audio_engine :: "bool \<Rightarrow> audio_settings \<Rightarrow> coordinator \<Rightarrow> coordinator outcome" where
  "start_audio_engine present settings c =
     (case AudioSyncEngine_init present settings of
        Inl err \<Rightarrow> raising err [] c
      | Inr e \<Rightarrow>
          (let r = audio_start e
           in returned_after (acts r) (c\<lparr>audio_engine := Some (after r), active_mode := Some AUDIO\<rparr>)))"

definition start_screen_engine :: "screen_settings \<Rightarrow> int option \<Rightarrow> coordinator \<Rightarrow> coordinator outcome" where
  "start_screen_engine settings screen_brightness c =
     (let e = ScreenSyncEngine_init settings;
          e' = (case screen_brightness of None \<Rightarrow> e | Some v \<Rightarrow> set_user_brightness v e);
          r = screen_start e'
      in returned_after (acts r) (c\<lparr>screen_engine := Some (after r), active_mode := Some SCREEN\<rparr>))"

text \<open>
  \<^verbatim>\<open>SyncCoordinator.start\<close>. Its last line, the \<^verbatim>\<open>ValueError\<close> for a mode that
  is neither of the two, cannot be reached with a \<open>sync_mode\<close>.
\<close>

definition start ::
  "sync_mode \<Rightarrow> string option \<Rightarrow> audio_settings \<Rightarrow> screen_settings \<Rightarrow> int option \<Rightarrow> start_env \<Rightarrow>
   coordinator \<Rightarrow> coordinator outcome"
where
  "start mode device_ip audio_set screen_set screen_brightness env c =
     and_then (stop (off_ok env) c) (\<lambda>c.
       (case mode of
          AUDIO \<Rightarrow>
            (if \<not> truthy device_ip
             then raising (ValueError ''Device IP is required for audio sync.'') [] c
             else
               and_then (connect (the device_ip) (connect_ok env) c) (\<lambda>c.
               and_then (ensure_on (on_ok env) c) (\<lambda>c.
               start_audio_engine (pyaudio_present env) audio_set c)))
        | SCREEN \<Rightarrow>
            (let scan = \<not> truthy device_ip;
                 ip = (if scan then discovered env else device_ip);
                 scanned = (if scan then [Discover] else [])
             in if \<not> truthy ip
                then raising (RuntimeError ''Device not found. Enter its IP and try again.'') scanned c
                else
                  and_then (returned_after scanned c) (\<lambda>c.
                  and_then (connect (the ip) (connect_ok env) c) (\<lambda>c.
                  and_then (ensure_on (on_ok env) c) (\<lambda>c.
                  start_screen_engine screen_set screen_brightness c))))))"

text \<open>
  A history of a coordinator: calls of \<^verbatim>\<open>start\<close> and \<^verbatim>\<open>stop\<close> (each with
  what it finds outside the program; for \<^verbatim>\<open>stop\<close>, whether the power-off
  succeeds), and between them the moments at which the loop of an engine ends with an
  exception: a failed device push, a capture device that cannot be opened. A loop that
  raises while it winds down after the stop event is, for the \<^verbatim>\<open>stop\<close> that awaits
  it, a loop that raised just before.
\<close>

datatype call =
  Start sync_mode "string option" audio_settings screen_settings "int option" start_env
  | Stop bool

datatype event = Call call | LoopFails

definition crash :: "task option \<Rightarrow> task option" where
  "crash t = (case t of Some Pending \<Rightarrow> Some Raised | _ \<Rightarrow> t)"

definition loop_fails :: "coordinator \<Rightarrow> coordinator" where
  "loop_fails c =
     c\<lparr>audio_engine := map_option (\<lambda>e. e\<lparr>a_task := crash (a_task e)\<rparr>) (audio_engine c),
       screen_engine := map_option (\<lambda>e. e\<lparr>s_task := crash (s_task e)\<rparr>) (screen_engine c)\<rparr>"

fun do_call :: "coordinator \<Rightarrow> call \<Rightarrow> coordinator outcome" where
  "do_call c (Start mode device_ip audio_set screen_set screen_brightness env) =
     start mode device_ip audio_set screen_set screen_brightness env c"
| "do_call c (Stop ok) = stop ok c"

fun step :: "coordinator \<Rightarrow> event \<Rightarrow> coordinator" where
  "step c (Call k) = after (do_call c k)"
| "step c LoopFails = loop_fails c"

fun run :: "coordinator \<Rightarrow> event list \<Rightarrow> coordinator" where
  "run c [] = c"
| "run c (ev # evs) = run (step c ev) evs"





definition idle :: "coordinator \<Rightarrow> coordinator" where
  "idle c = c\<lparr>audio_engine := None, screen_engine := None, active_mode := None\<rparr>"



section \<open>audio\_sync.py: the loop of the audio engine\<close>

definition DEFAULT_BANDS :: "int list" where
  "DEFAULT_BANDS = [50, 100, 250, 500, 1000, 2000, 4000, 6000, 10000, 20000]"

text \<open>\<^verbatim>\<open>numpy.mean\<close> of a non-empty array, and the slice \<^verbatim>\<open>a[lo:hi]\<close> for
  \<open>0 \<le> lo\<close>.\<close>

definition np_mean :: "real list \<Rightarrow> real" where
  "np_mean xs = sum_list xs / real (length xs)"

definition slice :: "'a list \<Rightarrow> nat \<Rightarrow> nat \<Rightarrow> 'a list" where
  "slice xs lo hi = take (hi - lo) (drop lo xs)"

text \<open>
  The body of the loop over the bands in \<^verbatim>\<open>_analyze_frame\<close>. The frame enters as its
  size \<open>n\<close> and the magnitudes \<^verbatim>\<open>mag = abs(fft(frame)[:n // 2]) / n\<close>; the transform
  itself is numpy's.
\<close>

definition band_energy :: "real list \<Rightarrow> nat \<Rightarrow> int \<Rightarrow> int \<Rightarrow> int \<Rightarrow> real" where
  "band_energy mag n rate freq_min freq_max =
     (let bin_max = py_int (real_of_int (freq_max * int n) / real_of_int rate);
          bin_min = py_int (real_of_int (freq_min * int n) / real_of_int rate);
          bin_max = min bin_max (int (length mag) - 1);
          bin_min = max bin_min 0
      in if bin_max > bin_min then np_mean (slice mag (nat bin_min) (nat bin_max)) else 0)"

definition band_energies_of :: "real list \<Rightarrow> nat \<Rightarrow> int \<Rightarrow> real list" where
  "band_energies_of mag n rate =
     map (\<lambda>(freq_min, freq_max). band_energy mag n rate freq_min freq_max)
       (zip (0 # DEFAULT_BANDS) DEFAULT_BANDS)"

definition analyze_frame ::
  "adaptive_energy \<Rightarrow> nat \<Rightarrow> nat \<Rightarrow> real list \<Rightarrow> int \<Rightarrow> adaptive_energy \<times> (py_error + real list)"
where
  "analyze_frame normalizer bands n mag rate =
     (if n = 0 then (normalizer, Inr (replicate bands 0))
      else if rate = 0 then (normalizer, Inl ZeroDivisionError)
      else update_and_normalize normalizer (band_energies_of mag n rate))"

text \<open>The colour computed in \<^verbatim>\<open>_run\<close> from the normalized bands.\<close>

definition audio_hue :: "real list \<Rightarrow> int" where
  "audio_hue band_norms =
     (let bass_energy = np_mean (slice band_norms 0 3);
          treble_energy = np_mean (slice band_norms 6 10)
      in py_int (py_mod (bass_energy * 0 + treble_energy * 240) 360))"

definition audio_color :: "real list \<Rightarrow> int \<times> int \<times> int" where
  "audio_color band_norms =
     (let overall_energy = np_mean band_norms;
          mid_energy = np_mean (slice band_norms 3 6);
          hue = audio_hue band_norms;
          saturation = max 30 (min (py_int (50 + mid_energy * 50)) 100);
          brightness = max 10 (min (py_int (20 + overall_energy * 80)) 100)
      in (hue, saturation, brightness))"

text \<open>
  One iteration of \<^verbatim>\<open>while self._stop_event and not self._stop_event.is_set()\<close>: the
  read fails with \<^verbatim>\<open>OSError\<close>, or it delivers a frame; then \<open>now\<close> is the value of
  \<^verbatim>\<open>time.time()\<close> read after the analysis, and \<open>ok\<close> says whether
  \<^verbatim>\<open>set_color\<close>, if it is called, succeeds.
\<close>

datatype audio_tick = ReadError | Frame nat "real list" real bool

record audio_loop =
  energy_norm :: adaptive_energy
  last_send :: real

record push =
  pushed_at :: real
  color :: "int \<times> int \<times> int"

text \<open>
  \<^verbatim>\<open>_run\<close> over the iterations made before the stop event is seen: the calls of
  \<^verbatim>\<open>set_color\<close> in order (a call that raises included), and the exception that ended
  the loop, if any.
\<close>

fun audio_run :: "audio_settings \<Rightarrow> int \<Rightarrow> audio_loop \<Rightarrow> audio_tick list \<Rightarrow> push list \<times> py_error option" where
  "audio_run settings rate st [] = ([], None)"
| "audio_run settings rate st (ReadError # ticks) = audio_run settings rate st ticks"
| "audio_run settings rate st (Frame n mag now ok # ticks) =
     (case analyze_frame (energy_norm st) (num_bands settings) n mag rate of
        (normalizer, Inl err) \<Rightarrow> ([], Some err)
      | (normalizer, Inr band_norms) \<Rightarrow>
          (if now - last_send st > update_interval settings
           then
             (if ok
              then (case audio_run settings rate \<lparr>energy_norm = normalizer, last_send = now\<rparr> ticks of
                      (ps, res) \<Rightarrow> (\<lparr>pushed_at = now, color = audio_color band_norms\<rparr> # ps, res))
              else ([\<lparr>pushed_at = now, color = audio_color band_norms\<rparr>], Some DeviceError))
           else audio_run settings rate \<lparr>energy_norm = normalizer, last_send = last_send st\<rparr> ticks))"

text \<open>
  Pushes spaced by more than \<open>iv\<close>: the first more than \<open>iv\<close> after \<open>t\<close>, each
  later one more than \<open>iv\<close> after the one before.
\<close>

fun spaced :: "real \<Rightarrow> real \<Rightarrow> push list \<Rightarrow> bool" where
  "spaced iv t [] = True"
| "spaced iv t (p # ps) = (pushed_at p - t > iv \<and> spaced iv (pushed_at p) ps)"

section \<open>screen\_sync.py: the loop of the screen engine\<close>

text \<open>\<^verbatim>\<open>colorsys.rgb_to_hsv\<close> of the standard library.\<close>

definition rgb_to_hsv :: "real \<Rightarrow> real \<Rightarrow> real \<Rightarrow> py_error + real \<times> real \<times> real" where
  "rgb_to_hsv r g b =
     (let maxc = max r (max g b);
          minc = min r (min g b);
          rangec = maxc - minc;
          v = maxc
      in if minc = maxc then Inr (0, 0, v)
         else if maxc = 0 then Inl ZeroDivisionError
         else
           (let s = rangec / maxc;
                rc = (maxc - r) / rangec;
                gc = (maxc - g) / rangec;
                bc = (maxc - b) / rangec;
                h = (if r = maxc then bc - gc
                     else if g = maxc then 2 + rc - bc
                     else 4 + gc - rc)
            in Inr (py_mod (h / 6) 1, s, v)))"

text \<open>
  \<^verbatim>\<open>_get_weighted_avg_color\<close>, from the weighted average colour of the captured
  frame (the capture and its numpy reduction are the tick's input).
\<close>

definition get_weighted_avg_color ::
  "screen_settings \<Rightarrow> int \<Rightarrow> int \<times> int \<times> int \<Rightarrow> py_error + int \<times> int \<times> int"
where
  "get_weighted_avg_color settings user_bri avg_color =
     (case apply_gamma_correction avg_color (gamma_correction settings) of
        Inl err \<Rightarrow> Inl err
      | Inr (cr, cg, cb) \<Rightarrow>
          (case rgb_to_hsv (real_of_int cr / 255) (real_of_int cg / 255) (real_of_int cb / 255) of
             Inl err \<Rightarrow> Inl err
           | Inr (h, s, v) \<Rightarrow>
               (let s = min (s * saturation_boost settings) 1;
                    brightness = py_int (real_of_int user_bri * v);
                    brightness = max (min_brightness settings) (min brightness (max_brightness settings));
                    hue = py_int (h * 360);
                    saturation = max 10 (py_int (s * 100))
                in Inr (hue, saturation, brightness))))"

definition update_colors ::
  "screen_engine \<Rightarrow> int \<times> int \<times> int \<Rightarrow> screen_engine \<times> (py_error + int \<times> int \<times> int)"
where
  "update_colors e avg_color =
     (case get_weighted_avg_color (s_settings e) (user_brightness e) avg_color of
        Inl err \<Rightarrow> (e, Inl err)
      | Inr (target_hue, target_sat, target_brightness) \<Rightarrow>
          (let f = smoothing_factor (s_settings e);
               e' = e\<lparr>current_hue := lerp_hue (current_hue e) (real_of_int target_hue) f,
                      current_sat := lerp (current_sat e) (real_of_int target_sat) f,
                      current_brightness := lerp (current_brightness e) (real_of_int target_brightness) f\<rparr>
           in (e', Inr (py_int (current_hue e'), py_int (current_sat e'), py_int (current_brightness e')))))"

text \<open>
  What happens to a running screen engine: an iteration of its loop on a captured
  frame (with whether \<^verbatim>\<open>set_color\<close> succeeds), or a call of
  \<^verbatim>\<open>set_user_brightness\<close> between two iterations.
\<close>

datatype screen_tick = Capture "int \<times> int \<times> int" bool | SetBrightness int

fun screen_loop :: "screen_engine \<Rightarrow> screen_tick list \<Rightarrow> (int \<times> int \<times> int) list \<times> py_error option" where
  "screen_loop e [] = ([], None)"
| "screen_loop e (SetBrightness v # ticks) = screen_loop (set_user_brightness v e) ticks"
| "screen_loop e (Capture avg_color ok # ticks) =
     (case update_colors e avg_color of
        (e', Inl err) \<Rightarrow> ([], Some err)
      | (e', Inr col) \<Rightarrow>
          (if ok then (case screen_loop e' ticks of (ps, res) \<Rightarrow> (col # ps, res))
           else ([col], Some DeviceError)))"

text \<open>\<^verbatim>\<open>_run\<close>: the pushed colours in order, and the exception that ended the loop.\<close>

definition screen_run :: "screen_engine \<Rightarrow> screen_tick list \<Rightarrow> (int \<times> int \<times> int) list \<times> py_error option" where
  "screen_run e ticks =
     (if refresh_rate (s_settings e) = 0 then ([], Some ZeroDivisionError) else screen_loop e ticks)"

definition pushed_brightness :: "int \<times> int \<times> int \<Rightarrow> int" where
  "pushed_brightness col = snd (snd col)"

text \<open>
  The loop invariant of the brightness: the engine keeps its settings and its smoothed
  brightness lies between the two bounds.
\<close>

definition bright_ok :: "screen_settings \<Rightarrow> screen_engine \<Rightarrow> bool" where
  "bright_ok settings e \<longleftrightarrow>
     s_settings e = settings \<and>
     real_of_int (min_brightness settings) \<le> current_brightness e \<and>
     current_brightness e \<le> real_of_int (max_brightness settings)"

section \<open>Concrete objects for examples\<close>

text \<open>A reachable network, a discovery scan that finds the light, a capture backend.\<close>

definition env_ok :: start_env where
  "env_ok =
     \<lparr>off_ok = True, discovered = Some ''192.168.1.7'', connect_ok = True, on_ok = True, pyaudio_present = True\<rparr>"

definition fresh_audio_engine :: audio_engine where
  "fresh_audio_engine =
     \<lparr>a_settings = AudioSettings, a_stop_event = None, a_task = None,
      a_energy_norm = AdaptiveEnergy_init 10 300\<rparr>"

definition fresh_screen_engine :: screen_engine where
  "fresh_screen_engine = ScreenSyncEngine_init ScreenSettings"

text \<open>
  A coordinator whose screen engine was started and whose loop then ended with an
  exception.
\<close>

definition crashed_screen :: coordinator where
  "crashed_screen =
     run SyncCoordinator_init
       [Call (Start SCREEN (Some ''10.0.0.2'') AudioSettings ScreenSettings None env_ok), LoopFails]"

text \<open>
  An audio loop started at clock reading 100, and five iterations on empty frames at
  the readings 100.01, 100.06, (a failed read), 100.10 and 100.12.
\<close>

definition loop_at_100 :: audio_loop where
  "loop_at_100 = \<lparr>energy_norm = AdaptiveEnergy_init 10 300, last_send = 100\<rparr>"

definition five_ticks :: "audio_tick list" where
  "five_ticks =
     [Frame 0 [] (10001 / 100) True, Frame 0 [] (10006 / 100) True, ReadError,
      Frame 0 [] (10010 / 100) True, Frame 0 [] (10012 / 100) True]"

text \<open>The default screen settings with the upper brightness bound lowered to 50.\<close>

definition dim_settings :: screen_settings where
  "dim_settings = ScreenSettings\<lparr>max_brightness := 50\<rparr>"

text \<open>The default screen settings with the smoothing factor raised to 1.5.\<close>

definition eager_settings :: screen_settings where
  "eager_settings = ScreenSettings\<lparr>smoothing_factor := 3 / 2\<rparr>"

section \<open>Circular interpolation and gamma correction\<close>

lemma py_mod_add_period: "py_mod (x + 360) 360 = py_mod x 360"
proof -
  have "\<lfloor>(x + 360) / 360\<rfloor> = \<lfloor>x / 360\<rfloor> + 1"
    by (simp add: add_divide_distrib)
  then show ?thesis by (simp add: py_mod_def algebra_simps)
qed

text \<open>
  C4. \<^verbatim>\<open>lerp_hue(350, 10, 0.5)\<close> is exactly 0, not 180. In general, when the two hues
  are more than 180 apart, the result is the plain interpolation with the smaller
  endpoint moved up by 360, reduced modulo 360; for hues in \<open>[0, 360)\<close> this is the
  interpolation from the start along the shorter arc, whose sweep is less than 180.
\<close>

theorem lerp_hue_shorter_arc:
  "lerp_hue 350 10 (1/2) = 0 \<and> lerp_hue 350 10 (1/2) \<noteq> 180 \<and>
   (\<forall>s e f. \<bar>e - s\<bar> > 180 \<longrightarrow>
      lerp_hue s e f = py_mod (if e > s then lerp (s + 360) e f else lerp s (e + 360) f) 360) \<and>
   (\<forall>s e f. 0 \<le> s \<and> s < 360 \<and> 0 \<le> e \<and> e < 360 \<and> \<bar>e - s\<bar> > 180 \<longrightarrow>
      \<bar>shorter_sweep s e\<bar> = 360 - \<bar>e - s\<bar> \<and> \<bar>shorter_sweep s e\<bar> < 180 \<and>
      lerp_hue s e f = py_mod (s + shorter_sweep s e * f) 360)"
proof (intro conjI allI impI)
  show a: "lerp_hue 350 10 (1/2) = 0"
    by (simp add: lerp_hue_def lerp_def py_mod_def Let_def)
  show "lerp_hue 350 10 (1/2) \<noteq> 180"
    by (simp add: a)
next
  fix s e f :: real
  assume "\<bar>e - s\<bar> > 180"
  then show "lerp_hue s e f = py_mod (if e > s then lerp (s + 360) e f else lerp s (e + 360) f) 360"
    by (simp add: lerp_hue_def Let_def)
next
  fix s e f :: real
  assume h: "0 \<le> s \<and> s < 360 \<and> 0 \<le> e \<and> e < 360 \<and> \<bar>e - s\<bar> > 180"
  then show "\<bar>shorter_sweep s e\<bar> = 360 - \<bar>e - s\<bar>"
    by (auto simp: shorter_sweep_def)
  from h show "\<bar>shorter_sweep s e\<bar> < 180"
    by (auto simp: shorter_sweep_def)
  show "lerp_hue s e f = py_mod (s + shorter_sweep s e * f) 360"
  proof (cases "e > s")
    case True
    with h have "lerp_hue s e f = py_mod (lerp (s + 360) e f) 360"
      by (simp add: lerp_hue_def Let_def)
    also have "lerp (s + 360) e f = (s + (e - s - 360) * f) + 360"
      by (simp add: lerp_def algebra_simps)
    also have "py_mod ((s + (e - s - 360) * f) + 360) 360 = py_mod (s + (e - s - 360) * f) 360"
      by (rule py_mod_add_period)
    finally show ?thesis using h True by (simp add: shorter_sweep_def)
  next
    case False
    with h have "lerp_hue s e f = py_mod (lerp s (e + 360) f) 360"
      by (simp add: lerp_hue_def Let_def)
    also have "lerp s (e + 360) f = s + (e - s + 360) * f"
      by (simp add: lerp_def algebra_simps)
    finally show ?thesis using h False by (simp add: shorter_sweep_def)
  qed
qed

text \<open>
  C4, witness: the hues 350 and 10 at a quarter of the way.
\<close>

theorem lerp_hue_shorter_arc_witness:
  "\<bar>10 - (350::real)\<bar> > 180 \<and> (0::real) \<le> 350 \<and> (350::real) < 360 \<and> (0::real) \<le> 10 \<and> (10::real) < 360 \<and>
   lerp_hue 350 10 (1/4) = py_mod (lerp 350 370 (1/4)) 360 \<and>
   \<bar>shorter_sweep 350 10\<bar> = 20 \<and>
   lerp_hue 350 10 (1/4) = py_mod (350 + shorter_sweep 350 10 * (1/4)) 360"
proof -
  have h: "(0::real) \<le> 350 \<and> (350::real) < 360 \<and> (0::real) \<le> 10 \<and> (10::real) < 360 \<and> \<bar>10 - (350::real)\<bar> > 180"
    by simp
  have w: "\<bar>10 - (350::real)\<bar> > 180" by simp
  from lerp_hue_shorter_arc w
  have a: "lerp_hue 350 10 (1/4) = py_mod (if (10::real) > 350 then lerp (350 + 360) 10 (1/4) else lerp 350 (10 + 360) (1/4)) 360"
    by blast
  from lerp_hue_shorter_arc h
  have b: "\<bar>shorter_sweep 350 10\<bar> = 360 - \<bar>10 - (350::real)\<bar> \<and>
           lerp_hue 350 10 (1/4) = py_mod (350 + shorter_sweep 350 10 * (1/4)) 360"
    by blast
  from a b h show ?thesis by simp
qed

lemma gamma_channel_one: "0 \<le> c \<Longrightarrow> gamma_channel c 1 = Inr c"
  by (cases "c = 0") (simp_all add: gamma_channel_def py_pow_def py_int_def)

text \<open>
  C5. With gamma 1.0 the gamma correction returns every grey \<open>(c, c, c)\<close> with
  \<open>c\<close> in \<open>[0, 255]\<close> unchanged.
\<close>

theorem gamma_one_identity:
  "0 \<le> c \<Longrightarrow> c \<le> 255 \<Longrightarrow> apply_gamma_correction (c, c, c) 1 = Inr (c, c, c)"
  by (simp add: apply_gamma_correction_def gamma_channel_one)

text \<open>
  C5, witness: the mid grey 128.
\<close>

theorem gamma_one_identity_witness:
  "(0::int) \<le> 128 \<and> (128::int) \<le> 255 \<and> apply_gamma_correction (128, 128, 128) 1 = Inr (128, 128, 128)"
  using gamma_one_identity [of 128] by simp

section \<open>AdaptiveEnergy: refinement, range, cold start\<close>

lemma length_deque_append: "length (deque_append m h x) = min (Suc (length h)) m"
  by (simp add: deque_append_def Let_def)



lemma normalize_loop_eq:
  "i + length es = length hist \<Longrightarrow>
   normalize_loop m i hist es acc =
     (take i hist @ map2 (deque_append m) (drop i hist) es,
      Inr (acc @ map2 (\<lambda>h e. band_value (deque_append m h e) e) (drop i hist) es))"
proof (induction es arbitrary: i hist acc)
  case Nil
  then show ?case by simp
next
  case (Cons e rest)
  then have i: "i < length hist" by simp
  let ?h = "deque_append m (hist ! i) e"
  have len: "Suc i + length rest = length (hist[i := ?h])"
    using Cons.prems by simp
  have d: "drop i hist = hist ! i # drop (Suc i) hist"
    using i by (simp add: Cons_nth_drop_Suc)
  have t: "take (Suc i) (hist[i := ?h]) = take i hist @ [?h]"
    using i by (simp add: take_Suc_conv_app_nth)
  show ?case
    using i Cons.IH [OF len] d t by (simp add: Let_def)
qed

lemma update_and_normalize_eq:
  assumes "length es = length (band_hist st)"
  shows "update_and_normalize st es =
     (st\<lparr>band_hist := map2 (deque_append (maxlen st)) (band_hist st) es\<rparr>,
      Inr (map2 (\<lambda>h e. band_value (deque_append (maxlen st) h e) e) (band_hist st) es))"
  using assms normalize_loop_eq [of 0 es "band_hist st" "maxlen st" "[]"]
  by (simp add: update_and_normalize_def)

lemma hist_bounded_init: "hist_bounded (AdaptiveEnergy_init n m)"
  by (simp add: hist_bounded_def AdaptiveEnergy_init_def)

lemma hist_bounded_update:
  "length es = length (band_hist st) \<Longrightarrow> hist_bounded (fst (update_and_normalize st es))"
  by (auto simp: update_and_normalize_eq hist_bounded_def length_deque_append dest!: set_zip_leftD in_set_zipE)



lemma sort_warm: "sort [0,0,0,0,0,0,0,0,0,0,0,0,0,0,0,0,0,1,1,1::real] = [0,0,0,0,0,0,0,0,0,0,0,0,0,0,0,0,0,1,1,1]"
  by simp






lemma np_clip_bounds: "lo \<le> hi \<Longrightarrow> lo \<le> np_clip x lo hi \<and> np_clip x lo hi \<le> hi"
  by (simp add: np_clip_def)















section \<open>The coordinator: start, stop and the one-engine invariant\<close>

lemma and_then_raised:
  "raised (and_then r f) = (case raised r of Some e \<Rightarrow> Some e | None \<Rightarrow> raised (f (after r)))"
  by (simp add: and_then_def Let_def split: option.splits)

lemma and_then_after:
  "after (and_then r f) = (case raised r of Some e \<Rightarrow> after r | None \<Rightarrow> after (f (after r)))"
  by (simp add: and_then_def Let_def split: option.splits)

lemma and_then_acts:
  "acts (and_then r f) = (case raised r of Some e \<Rightarrow> acts r | None \<Rightarrow> acts r @ acts (f (after r)))"
  by (simp add: and_then_def Let_def split: option.splits)

lemmas and_then_simps = and_then_raised and_then_after and_then_acts

lemma outcome_simps [simp]:
  "raised (returned s) = None" "acts (returned s) = []" "after (returned s) = s"
  "raised (returned_after as s) = None" "acts (returned_after as s) = as" "after (returned_after as s) = s"
  "raised (raising e as s) = Some e" "acts (raising e as s) = as" "after (raising e as s) = s"
  by (simp_all add: returned_def returned_after_def raising_def)

lemma idle_fields [simp]:
  "audio_engine (idle c) = None" "screen_engine (idle c) = None" "active_mode (idle c) = None"
  "ctl (idle c) = ctl c"
  by (simp_all add: idle_def)

subsection \<open>The engines\<close>

lemma audio_stop_cases:
  "(a_task e = None \<and> audio_stop e = returned e) \<or>
   (a_task e = Some Pending \<and> raised (audio_stop e) = None \<and> acts (audio_stop e) = [JoinLoop AUDIO] \<and>
      a_task (after (audio_stop e)) = None) \<or>
   (a_task e = Some Raised \<and> raised (audio_stop e) = Some LoopError \<and> acts (audio_stop e) = [JoinLoop AUDIO] \<and>
      a_task (after (audio_stop e)) = Some Raised)"
  by (cases "a_task e"; cases "the (a_task e)"; cases "a_stop_event e")
     (simp_all add: audio_stop_def Let_def)

lemma screen_stop_cases:
  "(s_task e = None \<and> screen_stop e = returned e) \<or>
   (s_task e = Some Pending \<and> raised (screen_stop e) = None \<and> acts (screen_stop e) = [JoinLoop SCREEN] \<and>
      s_task (after (screen_stop e)) = None) \<or>
   (s_task e = Some Raised \<and> raised (screen_stop e) = Some LoopError \<and> acts (screen_stop e) = [JoinLoop SCREEN] \<and>
      s_task (after (screen_stop e)) = Some Raised)"
  by (cases "s_task e"; cases "the (s_task e)"; cases "s_stop_event e")
     (simp_all add: screen_stop_def Let_def)

lemma audio_start_running:
  "raised (audio_start e) = None \<and> a_task (after (audio_start e)) = Some Pending"
  by (simp add: audio_start_def)

lemma screen_start_running:
  "raised (screen_start e) = None \<and> s_task (after (screen_start e)) = Some Pending"
  by (simp add: screen_start_def)

subsection \<open>stop\<close>

lemma stop_audio_cases:
  "(raised (stop_audio c) = None \<and> after (stop_audio c) = c\<lparr>audio_engine := None\<rparr>) \<or>
   (raised (stop_audio c) = Some LoopError \<and> (\<exists>e. audio_engine c \<noteq> None \<and>
      after (stop_audio c) = c\<lparr>audio_engine := Some e\<rparr>))"
proof (cases "audio_engine c")
  case None
  then show ?thesis by (simp add: stop_audio_def)
next
  case (Some e)
  with audio_stop_cases [of e] show ?thesis
    by (auto simp: stop_audio_def Let_def)
qed

lemma stop_screen_cases:
  "(raised (stop_screen c) = None \<and> after (stop_screen c) = c\<lparr>screen_engine := None\<rparr>) \<or>
   (raised (stop_screen c) = Some LoopError \<and> (\<exists>e. screen_engine c \<noteq> None \<and>
      after (stop_screen c) = c\<lparr>screen_engine := Some e\<rparr>))"
proof (cases "screen_engine c")
  case None
  then show ?thesis by (simp add: stop_screen_def)
next
  case (Some e)
  with screen_stop_cases [of e] show ?thesis
    by (auto simp: stop_screen_def Let_def)
qed

lemma try_ensure_off_after [simp]:
  "raised (try_ensure_off ok c) = None" "after (try_ensure_off ok c) = c"
  by (simp_all add: try_ensure_off_def ensure_off_def)

lemma try_ensure_off_acts:
  "acts (try_ensure_off ok c) = (if has_device (ctl c) then [PowerOff] else [])"
  by (simp add: try_ensure_off_def ensure_off_def)

lemma stop_completed:
  assumes "raised (stop ok c) = None"
  shows "after (stop ok c) = idle c"
proof -
  from assms have a: "raised (stop_audio c) = None"
    by (simp add: stop_def and_then_raised split: option.splits)
  with stop_audio_cases [of c] have a': "after (stop_audio c) = c\<lparr>audio_engine := None\<rparr>"
    by auto
  from assms a have s: "raised (stop_screen (after (stop_audio c))) = None"
    by (simp add: stop_def and_then_raised split: option.splits)
  with stop_screen_cases [of "after (stop_audio c)"]
  have s': "after (stop_screen (after (stop_audio c))) = c\<lparr>audio_engine := None, screen_engine := None\<rparr>"
    by (auto simp: a')
  show ?thesis
    using a s s' by (simp add: stop_def and_then_after idle_def)
qed



lemma stop_audio_acts: "set (acts (stop_audio c)) \<subseteq> {JoinLoop AUDIO}"
proof (cases "audio_engine c")
  case None
  then show ?thesis by (simp add: stop_audio_def)
next
  case (Some e)
  with audio_stop_cases [of e] show ?thesis
    by (auto simp: stop_audio_def Let_def)
qed

lemma stop_screen_acts: "set (acts (stop_screen c)) \<subseteq> {JoinLoop SCREEN}"
proof (cases "screen_engine c")
  case None
  then show ?thesis by (simp add: stop_screen_def)
next
  case (Some e)
  with screen_stop_cases [of e] show ?thesis
    by (auto simp: stop_screen_def Let_def)
qed

lemma stop_acts: "set (acts (stop ok c)) \<subseteq> {JoinLoop AUDIO, JoinLoop SCREEN, PowerOff}"
proof -
  have "set (acts (try_ensure_off ok d)) \<subseteq> {PowerOff}" for d
    by (auto simp: try_ensure_off_acts)
  with stop_audio_acts stop_screen_acts show ?thesis
    by (fastforce simp: stop_def and_then_acts split: option.splits)
qed

subsection \<open>start\<close>

lemma connect_fields [simp]:
  "audio_engine (after (connect ip ok c)) = audio_engine c"
  "screen_engine (after (connect ip ok c)) = screen_engine c"
  "active_mode (after (connect ip ok c)) = active_mode c"
  by (simp_all add: connect_def)

lemma ensure_on_fields [simp]: "after (ensure_on ok c) = c"
  by (simp add: ensure_on_def)



lemma start_when_stop_raises:
  "raised (stop (off_ok env) c) \<noteq> None \<Longrightarrow> start mode ip a s b env c = stop (off_ok env) c"
  by (auto simp: start_def and_then_def)













section \<open>The coordinator and the engines: the claims\<close>



lemma crashed_screen_eval:
  "audio_engine crashed_screen = None \<and>
   active_mode crashed_screen = Some SCREEN \<and>
   screen_engine crashed_screen =
     Some (ScreenSyncEngine_init ScreenSettings \<lparr>s_stop_event := Some False, s_task := Some Raised\<rparr>)"
  by (simp add: crashed_screen_def SyncCoordinator_init_def env_ok_def start_def stop_def
      and_then_simps stop_audio_def stop_screen_def truthy_def connect_def ensure_on_def
      start_screen_engine_def screen_start_def ScreenSyncEngine_init_def loop_fails_def crash_def
      Let_def)



text \<open>
  C8, as amended. \<^verbatim>\<open>start\<close> in audio mode without a device address (\<^verbatim>\<open>None\<close> or
  the empty string) never returns normally and never attempts discovery, connection,
  power-on or a new loop: all it does is what its preliminary \<^verbatim>\<open>stop\<close> does.
  When that preliminary \<^verbatim>\<open>stop\<close> returns, the call raises the configuration error
  and leaves the coordinator with no engine and no recorded mode.
\<close>

theorem audio_start_without_address:
  assumes "\<not> truthy device_ip"
  shows "raised (start AUDIO device_ip a s b env c) \<noteq> None \<and>
         set (acts (start AUDIO device_ip a s b env c)) \<subseteq> {JoinLoop AUDIO, JoinLoop SCREEN, PowerOff} \<and>
         (raised (stop (off_ok env) c) = None \<longrightarrow>
            raised (start AUDIO device_ip a s b env c) =
              Some (ValueError ''Device IP is required for audio sync.'') \<and>
            acts (start AUDIO device_ip a s b env c) = acts (stop (off_ok env) c) \<and>
            audio_engine (after (start AUDIO device_ip a s b env c)) = None \<and>
            screen_engine (after (start AUDIO device_ip a s b env c)) = None \<and>
            active_mode (after (start AUDIO device_ip a s b env c)) = None)"
proof (cases "raised (stop (off_ok env) c)")
  case None
  then have i: "after (stop (off_ok env) c) = idle c" by (rule stop_completed)
  have e: "start AUDIO device_ip a s b env c =
      \<lparr>raised = Some (ValueError ''Device IP is required for audio sync.''), acts = acts (stop (off_ok env) c),
       after = idle c\<rparr>"
    using assms None i by (simp add: start_def and_then_def raising_def Let_def)
  show ?thesis
    using None stop_acts [of "off_ok env" c] by (simp add: e)
next
  case (Some err)
  then have "start AUDIO device_ip a s b env c = stop (off_ok env) c"
    by (simp add: start_when_stop_raises)
  with Some stop_acts [of "off_ok env" c] show ?thesis by simp
qed

text \<open>
  C8, witness: from a running screen engine, with the empty string as the address.
\<close>

theorem audio_start_without_address_witness:
  "\<not> truthy (Some []) \<and>
   raised (stop (off_ok env_ok) (run SyncCoordinator_init
      [Call (Start SCREEN None AudioSettings ScreenSettings None env_ok)])) = None \<and>
   raised (start AUDIO (Some []) AudioSettings ScreenSettings None env_ok
      (run SyncCoordinator_init [Call (Start SCREEN None AudioSettings ScreenSettings None env_ok)])) =
     Some (ValueError ''Device IP is required for audio sync.'') \<and>
   acts (start AUDIO (Some []) AudioSettings ScreenSettings None env_ok
      (run SyncCoordinator_init [Call (Start SCREEN None AudioSettings ScreenSettings None env_ok)])) =
     [JoinLoop SCREEN, PowerOff] \<and>
   active_mode (after (start AUDIO (Some []) AudioSettings ScreenSettings None env_ok
      (run SyncCoordinator_init [Call (Start SCREEN None AudioSettings ScreenSettings None env_ok)]))) = None"
proof -
  let ?c = "run SyncCoordinator_init [Call (Start SCREEN None AudioSettings ScreenSettings None env_ok)]"
  have t: "\<not> truthy (Some [])" by (simp add: truthy_def)
  have s: "raised (stop (off_ok env_ok) ?c) = None" by code_simp
  have a: "acts (stop (off_ok env_ok) ?c) = [JoinLoop SCREEN, PowerOff]" by code_simp
  from audio_start_without_address [OF t, of AudioSettings ScreenSettings None env_ok ?c] s a t
  show ?thesis by simp
qed

text \<open>
  C8, counterexample to the claim as stated: when the loop of the previously started
  engine has ended with an exception, the preliminary \<^verbatim>\<open>stop\<close> re-raises it at
  \<^verbatim>\<open>await self._task\<close>; the call fails with that exception, not with the
  configuration error, and the engine and the mode stay recorded.
\<close>

theorem audio_start_after_crash_counterexample:
  "\<not> truthy None \<and>
   raised (start AUDIO None AudioSettings ScreenSettings None env_ok crashed_screen) = Some LoopError \<and>
   acts (start AUDIO None AudioSettings ScreenSettings None env_ok crashed_screen) = [JoinLoop SCREEN] \<and>
   active_mode (after (start AUDIO None AudioSettings ScreenSettings None env_ok crashed_screen)) =
     Some SCREEN \<and>
   screen_engine (after (start AUDIO None AudioSettings ScreenSettings None env_ok crashed_screen)) \<noteq> None"
  by code_simp

text \<open>
  C9. For both engines: \<^verbatim>\<open>start\<close> on a running engine spawns nothing and changes
  nothing, \<^verbatim>\<open>stop\<close> on an idle engine does nothing; so a second \<^verbatim>\<open>start\<close> right
  after a first, and a second \<^verbatim>\<open>stop\<close> right after one that returned, are no-ops.
\<close>

theorem engine_start_stop_noop:
  "(a_task e = Some Pending \<longrightarrow> audio_start e = \<lparr>raised = None, acts = [], after = e\<rparr>) \<and>
   (a_task e = None \<longrightarrow> audio_stop e = \<lparr>raised = None, acts = [], after = e\<rparr>) \<and>
   (s_task f = Some Pending \<longrightarrow> screen_start f = \<lparr>raised = None, acts = [], after = f\<rparr>) \<and>
   (s_task f = None \<longrightarrow> screen_stop f = \<lparr>raised = None, acts = [], after = f\<rparr>) \<and>
   audio_start (after (audio_start e)) = \<lparr>raised = None, acts = [], after = after (audio_start e)\<rparr> \<and>
   screen_start (after (screen_start f)) = \<lparr>raised = None, acts = [], after = after (screen_start f)\<rparr> \<and>
   (raised (audio_stop e) = None \<longrightarrow>
      audio_stop (after (audio_stop e)) = \<lparr>raised = None, acts = [], after = after (audio_stop e)\<rparr>) \<and>
   (raised (screen_stop f) = None \<longrightarrow>
      screen_stop (after (screen_stop f)) = \<lparr>raised = None, acts = [], after = after (screen_stop f)\<rparr>)"
proof (intro conjI impI)
  show "audio_start (after (audio_start e)) = \<lparr>raised = None, acts = [], after = after (audio_start e)\<rparr>"
    using audio_start_running [of e] by (simp add: audio_start_def [of "after (audio_start e)"] returned_def)
  show "screen_start (after (screen_start f)) = \<lparr>raised = None, acts = [], after = after (screen_start f)\<rparr>"
    using screen_start_running [of f] by (simp add: screen_start_def [of "after (screen_start f)"] returned_def)
next
  assume "raised (audio_stop e) = None"
  with audio_stop_cases [of e] have "a_task (after (audio_stop e)) = None" by auto
  then show "audio_stop (after (audio_stop e)) = \<lparr>raised = None, acts = [], after = after (audio_stop e)\<rparr>"
    by (simp add: audio_stop_def [of "after (audio_stop e)"] returned_def)
next
  assume "raised (screen_stop f) = None"
  with screen_stop_cases [of f] have "s_task (after (screen_stop f)) = None" by auto
  then show "screen_stop (after (screen_stop f)) = \<lparr>raised = None, acts = [], after = after (screen_stop f)\<rparr>"
    by (simp add: screen_stop_def [of "after (screen_stop f)"] returned_def)
qed (simp_all add: audio_start_def audio_stop_def screen_start_def screen_stop_def returned_def)

text \<open>
  C9, witness: a freshly constructed engine of each kind, started and stopped.
\<close>

theorem engine_start_stop_noop_witness:
  "a_task (after (audio_start fresh_audio_engine)) = Some Pending \<and>
   acts (audio_start fresh_audio_engine) = [SpawnLoop AUDIO] \<and>
   audio_start (after (audio_start fresh_audio_engine)) =
     \<lparr>raised = None, acts = [], after = after (audio_start fresh_audio_engine)\<rparr> \<and>
   a_task fresh_audio_engine = None \<and>
   audio_stop fresh_audio_engine = \<lparr>raised = None, acts = [], after = fresh_audio_engine\<rparr> \<and>
   s_task (after (screen_start fresh_screen_engine)) = Some Pending \<and>
   screen_start (after (screen_start fresh_screen_engine)) =
     \<lparr>raised = None, acts = [], after = after (screen_start fresh_screen_engine)\<rparr> \<and>
   s_task fresh_screen_engine = None \<and>
   screen_stop fresh_screen_engine = \<lparr>raised = None, acts = [], after = fresh_screen_engine\<rparr> \<and>
   raised (audio_stop (after (audio_start fresh_audio_engine))) = None \<and>
   acts (audio_stop (after (audio_start fresh_audio_engine))) = [JoinLoop AUDIO] \<and>
   audio_stop (after (audio_stop (after (audio_start fresh_audio_engine)))) =
     \<lparr>raised = None, acts = [], after = after (audio_stop (after (audio_start fresh_audio_engine)))\<rparr>"
proof -
  have 1: "a_task (after (audio_start fresh_audio_engine)) = Some Pending"
    and 2: "acts (audio_start fresh_audio_engine) = [SpawnLoop AUDIO]"
    and 3: "a_task fresh_audio_engine = None"
    and 4: "s_task (after (screen_start fresh_screen_engine)) = Some Pending"
    and 5: "s_task fresh_screen_engine = None"
    by (simp_all add: audio_start_def screen_start_def fresh_audio_engine_def fresh_screen_engine_def
        ScreenSyncEngine_init_def)
  have 6: "raised (audio_stop (after (audio_start fresh_audio_engine))) = None"
    and 7: "acts (audio_stop (after (audio_start fresh_audio_engine))) = [JoinLoop AUDIO]"
    using audio_stop_cases [of "after (audio_start fresh_audio_engine)"] 1 by auto
  note a = engine_start_stop_noop [of "after (audio_start fresh_audio_engine)" "after (screen_start fresh_screen_engine)"]
  note b = engine_start_stop_noop [of fresh_audio_engine fresh_screen_engine]
  from a 1 have s1: "audio_start (after (audio_start fresh_audio_engine)) =
     \<lparr>raised = None, acts = [], after = after (audio_start fresh_audio_engine)\<rparr>" by blast
  from a 4 have s2: "screen_start (after (screen_start fresh_screen_engine)) =
     \<lparr>raised = None, acts = [], after = after (screen_start fresh_screen_engine)\<rparr>" by blast
  from b 3 have s3: "audio_stop fresh_audio_engine = \<lparr>raised = None, acts = [], after = fresh_audio_engine\<rparr>"
    by blast
  from b 5 have s4: "screen_stop fresh_screen_engine = \<lparr>raised = None, acts = [], after = fresh_screen_engine\<rparr>"
    by blast
  from a 6 have s5: "audio_stop (after (audio_stop (after (audio_start fresh_audio_engine)))) =
     \<lparr>raised = None, acts = [], after = after (audio_stop (after (audio_start fresh_audio_engine)))\<rparr>"
    by blast
  from 1 2 3 4 5 6 7 s1 s2 s3 s4 s5 show ?thesis by blast
qed

section \<open>The audio loop: the rate limiter\<close>

lemma audio_run_spaced:
  "spaced (update_interval settings) (last_send st) (fst (audio_run settings rate st ticks))"
proof (induction settings rate st ticks rule: audio_run.induct)
  case (1 settings rate st)
  show ?case by simp
next
  case (2 settings rate st ticks)
  then show ?case by simp
next
  case (3 settings rate st n mag now ok ticks)
  obtain normalizer res where a:
    "analyze_frame (energy_norm st) (num_bands settings) n mag rate = (normalizer, res)"
    by (cases "analyze_frame (energy_norm st) (num_bands settings) n mag rate")
  show ?case
  proof (cases res)
    case (Inl err)
    with a show ?thesis by simp
  next
    case (Inr band_norms)
    show ?thesis
    proof (cases "now - last_send st > update_interval settings")
      case True
      show ?thesis
      proof (cases ok)
        case ok: True
        from 3(1) [OF a [symmetric] Inr True ok]
        have "spaced (update_interval settings) now
            (fst (audio_run settings rate \<lparr>energy_norm = normalizer, last_send = now\<rparr> ticks))"
          by simp
        with a Inr True ok show ?thesis
          by (auto split: prod.splits)
      next
        case False
        with a Inr True show ?thesis by simp
      qed
    next
      case False
      from 3(2) [OF a [symmetric] Inr False]
      have "spaced (update_interval settings) (last_send st)
          (fst (audio_run settings rate \<lparr>energy_norm = normalizer, last_send = last_send st\<rparr> ticks))"
        by simp
      with a Inr False show ?thesis by simp
    qed
  qed
qed

lemma spaced_consecutive:
  "spaced iv t ps \<Longrightarrow> Suc i < length ps \<Longrightarrow> pushed_at (ps ! Suc i) - pushed_at (ps ! i) > iv"
proof (induction ps arbitrary: t i)
  case Nil
  then show ?case by simp
next
  case (Cons p ps)
  show ?case
  proof (cases i)
    case 0
    with Cons.prems obtain q qs where "ps = q # qs" by (cases ps) auto
    with Cons.prems 0 show ?thesis by simp
  next
    case (Suc j)
    with Cons.prems have "spaced iv (pushed_at p) ps" "Suc j < length ps" by auto
    from Cons.IH [OF this] Suc show ?thesis by simp
  qed
qed

lemma audio_tick_no_push:
  "now - last_send st \<le> update_interval settings \<Longrightarrow>
   fst (audio_run settings rate st [Frame n mag now ok]) = []"
  by (cases "analyze_frame (energy_norm st) (num_bands settings) n mag rate")
     (auto split: sum.splits)

text \<open>
  C6. In every run of the audio loop the pushes are spaced: the clock reading at each
  push exceeds the reading at the push before it (for the first push: the reading taken
  when the loop started) by strictly more than the configured minimum interval; and an
  iteration whose reading is not more than the interval past the last push issues no
  push. Time is the loop's own \<^verbatim>\<open>time.time()\<close> readings.
\<close>

theorem audio_push_rate_limited:
  "spaced (update_interval settings) (last_send st) (fst (audio_run settings rate st ticks)) \<and>
   (\<forall>i. Suc i < length (fst (audio_run settings rate st ticks)) \<longrightarrow>
      pushed_at (fst (audio_run settings rate st ticks) ! Suc i)
        - pushed_at (fst (audio_run settings rate st ticks) ! i) > update_interval settings) \<and>
   (now - last_send st \<le> update_interval settings \<longrightarrow>
      fst (audio_run settings rate st [Frame n mag now ok]) = [])"
  using audio_run_spaced spaced_consecutive audio_tick_no_push by blast

lemma silent_color: "audio_color (replicate 10 0) = (0, 50, 20)"
  by (simp add: audio_color_def audio_hue_def np_mean_def slice_def py_int_def py_mod_def
      sum_list_replicate Let_def)

lemma empty_frame_pushed:
  "now - last_send st > update_interval settings \<Longrightarrow> num_bands settings = 10 \<Longrightarrow>
   fst (audio_run settings rate st (Frame 0 mag now True # ticks)) =
     \<lparr>pushed_at = now, color = (0, 50, 20)\<rparr> #
       fst (audio_run settings rate \<lparr>energy_norm = energy_norm st, last_send = now\<rparr> ticks)"
  by (simp add: analyze_frame_def silent_color split: prod.splits)

lemma empty_frame_skipped:
  "\<not> now - last_send st > update_interval settings \<Longrightarrow>
   fst (audio_run settings rate st (Frame 0 mag now ok # ticks)) =
     fst (audio_run settings rate \<lparr>energy_norm = energy_norm st, last_send = last_send st\<rparr> ticks)"
  by (simp add: analyze_frame_def)

lemma five_ticks_pushes:
  "fst (audio_run AudioSettings 44100 loop_at_100 five_ticks) =
     [\<lparr>pushed_at = 10006 / 100, color = (0, 50, 20)\<rparr>, \<lparr>pushed_at = 10012 / 100, color = (0, 50, 20)\<rparr>]"
proof -
  have i: "update_interval AudioSettings = 5 / 100" and n: "num_bands AudioSettings = 10"
    by (simp_all add: AudioSettings_def)
  let ?e = "AdaptiveEnergy_init 10 300"
  have 1: "fst (audio_run AudioSettings 44100 loop_at_100 five_ticks) =
      fst (audio_run AudioSettings 44100 \<lparr>energy_norm = ?e, last_send = 100\<rparr>
        [Frame 0 [] (10006 / 100) True, ReadError, Frame 0 [] (10010 / 100) True, Frame 0 [] (10012 / 100) True])"
    unfolding five_ticks_def by (subst empty_frame_skipped) (simp_all add: i loop_at_100_def)
  have 2: "fst (audio_run AudioSettings 44100 \<lparr>energy_norm = ?e, last_send = 100\<rparr>
        [Frame 0 [] (10006 / 100) True, ReadError, Frame 0 [] (10010 / 100) True, Frame 0 [] (10012 / 100) True]) =
      \<lparr>pushed_at = 10006 / 100, color = (0, 50, 20)\<rparr> #
      fst (audio_run AudioSettings 44100 \<lparr>energy_norm = ?e, last_send = 10006 / 100\<rparr>
        [Frame 0 [] (10010 / 100) True, Frame 0 [] (10012 / 100) True])"
    by (subst empty_frame_pushed) (simp_all add: i n)
  have 3: "fst (audio_run AudioSettings 44100 \<lparr>energy_norm = ?e, last_send = 10006 / 100\<rparr>
        [Frame 0 [] (10010 / 100) True, Frame 0 [] (10012 / 100) True]) =
      fst (audio_run AudioSettings 44100 \<lparr>energy_norm = ?e, last_send = 10006 / 100\<rparr>
        [Frame 0 [] (10012 / 100) True])"
    by (subst empty_frame_skipped) (simp_all add: i)
  have 4: "fst (audio_run AudioSettings 44100 \<lparr>energy_norm = ?e, last_send = 10006 / 100\<rparr>
        [Frame 0 [] (10012 / 100) True]) = [\<lparr>pushed_at = 10012 / 100, color = (0, 50, 20)\<rparr>]"
    by (subst empty_frame_pushed) (simp_all add: i n)
  show ?thesis by (simp only: 1 2 3 4)
qed

text \<open>
  C6, witness: of the four frames read at 100.01, 100.06, 100.10 and 100.12 by a loop
  started at 100 with the default interval 0.05, only the second and the fourth push.
\<close>

theorem audio_push_rate_limited_witness:
  "Suc 0 < length (fst (audio_run AudioSettings 44100 loop_at_100 five_ticks)) \<and>
   map pushed_at (fst (audio_run AudioSettings 44100 loop_at_100 five_ticks)) = [10006 / 100, 10012 / 100] \<and>
   pushed_at (fst (audio_run AudioSettings 44100 loop_at_100 five_ticks) ! Suc 0)
     - pushed_at (fst (audio_run AudioSettings 44100 loop_at_100 five_ticks) ! 0)
     > update_interval AudioSettings \<and>
   10001 / 100 - last_send loop_at_100 \<le> update_interval AudioSettings \<and>
   fst (audio_run AudioSettings 44100 loop_at_100 [Frame 0 [] (10001 / 100) True]) = []"
proof -
  have l: "Suc 0 < length (fst (audio_run AudioSettings 44100 loop_at_100 five_ticks))"
    by (simp add: five_ticks_pushes)
  have e: "10001 / 100 - last_send loop_at_100 \<le> update_interval AudioSettings"
    by (simp add: loop_at_100_def AudioSettings_def)
  note t = audio_push_rate_limited [of AudioSettings loop_at_100 44100 five_ticks "10001 / 100" 0 "[]" True]
  from t l have 1: "pushed_at (fst (audio_run AudioSettings 44100 loop_at_100 five_ticks) ! Suc 0)
     - pushed_at (fst (audio_run AudioSettings 44100 loop_at_100 five_ticks) ! 0)
     > update_interval AudioSettings"
    by blast
  from t e have 2: "fst (audio_run AudioSettings 44100 loop_at_100 [Frame 0 [] (10001 / 100) True]) = []"
    by blast
  have 3: "map pushed_at (fst (audio_run AudioSettings 44100 loop_at_100 five_ticks)) = [10006 / 100, 10012 / 100]"
    by (simp add: five_ticks_pushes)
  from l e 1 2 3 show ?thesis by blast
qed


section \<open>The audio loop: the hue\<close>














section \<open>The screen loop: the brightness pushed\<close>

lemma py_int_between:
  "real_of_int lo \<le> x \<Longrightarrow> x \<le> real_of_int hi \<Longrightarrow> lo \<le> py_int x \<and> py_int x \<le> hi"
  by (auto simp: py_int_def le_floor_iff floor_le_iff ceiling_le_iff le_ceiling_iff)

lemma lerp_between:
  assumes "lo \<le> c" "c \<le> hi" "lo \<le> t" "t \<le> hi" "0 \<le> f" "f \<le> 1"
  shows "lo \<le> lerp c t f \<and> lerp c t f \<le> hi"
proof -
  have e: "lerp c t f = (1 - f) * c + f * t"
    by (simp add: lerp_def algebra_simps)
  have "(1 - f) * lo \<le> (1 - f) * c" "f * lo \<le> f * t" "(1 - f) * c \<le> (1 - f) * hi" "f * t \<le> f * hi"
    using assms by (auto intro: mult_left_mono)
  then have "(1 - f) * lo + f * lo \<le> (1 - f) * c + f * t" "(1 - f) * c + f * t \<le> (1 - f) * hi + f * hi"
    by linarith+
  then show ?thesis by (simp add: e algebra_simps)
qed

lemma target_brightness_clamped:
  assumes "get_weighted_avg_color settings ub avg = Inr (h, s, b)"
    and "min_brightness settings \<le> max_brightness settings"
  shows "min_brightness settings \<le> b \<and> b \<le> max_brightness settings"
  using assms
  by (auto simp: get_weighted_avg_color_def Let_def split: sum.splits prod.splits)

lemma update_colors_bright_ok:
  assumes "bright_ok settings e"
    and "0 \<le> smoothing_factor settings" "smoothing_factor settings \<le> 1"
    and "update_colors e avg = (e', Inr col)"
  shows "bright_ok settings e' \<and>
         min_brightness settings \<le> pushed_brightness col \<and> pushed_brightness col \<le> max_brightness settings"
proof -
  from assms(4) obtain th ts tb where
    g: "get_weighted_avg_color (s_settings e) (user_brightness e) avg = Inr (th, ts, tb)"
    by (auto simp: update_colors_def split: sum.splits)
  from assms(1) have s: "s_settings e = settings"
    and c: "real_of_int (min_brightness settings) \<le> current_brightness e"
           "current_brightness e \<le> real_of_int (max_brightness settings)"
    by (auto simp: bright_ok_def)
  from c have mm: "min_brightness settings \<le> max_brightness settings" by linarith
  from target_brightness_clamped [OF g [unfolded s] mm]
  have t: "real_of_int (min_brightness settings) \<le> real_of_int tb"
          "real_of_int tb \<le> real_of_int (max_brightness settings)"
    by auto
  let ?b = "lerp (current_brightness e) (real_of_int tb) (smoothing_factor settings)"
  from lerp_between [OF c t assms(2,3)]
  have b: "real_of_int (min_brightness settings) \<le> ?b" "?b \<le> real_of_int (max_brightness settings)"
    by auto
  from assms(4) g s have e': "current_brightness e' = ?b" "s_settings e' = settings"
    and col: "pushed_brightness col = py_int ?b"
    by (auto simp: update_colors_def Let_def pushed_brightness_def)
  from py_int_between [OF b] b e' col show ?thesis
    by (simp add: bright_ok_def)
qed

lemma set_user_brightness_bright_ok:
  "bright_ok settings e \<Longrightarrow> bright_ok settings (set_user_brightness v e)"
  by (simp add: bright_ok_def set_user_brightness_def)

lemma screen_loop_bright:
  assumes "0 \<le> smoothing_factor settings" "smoothing_factor settings \<le> 1"
  shows "bright_ok settings e \<Longrightarrow>
         \<forall>col \<in> set (fst (screen_loop e ticks)).
           min_brightness settings \<le> pushed_brightness col \<and> pushed_brightness col \<le> max_brightness settings"
proof (induction e ticks rule: screen_loop.induct)
  case (1 e)
  show ?case by simp
next
  case (2 e v ticks)
  from 2(2) have "bright_ok settings (set_user_brightness v e)"
    by (rule set_user_brightness_bright_ok)
  from 2(1) [OF this] show ?case by simp
next
  case (3 e avg ok ticks)
  obtain e' res where u: "update_colors e avg = (e', res)"
    by (cases "update_colors e avg")
  show ?case
  proof (cases res)
    case (Inl err)
    with u show ?thesis by simp
  next
    case (Inr col)
    from update_colors_bright_ok [OF 3(2) assms u [unfolded Inr]]
    have k: "bright_ok settings e'"
      and c: "min_brightness settings \<le> pushed_brightness col \<and> pushed_brightness col \<le> max_brightness settings"
      by auto
    show ?thesis
    proof (cases ok)
      case True
      from 3(1) [OF u [symmetric] Inr True k] c u Inr True show ?thesis
        by (auto split: prod.splits)
    next
      case False
      with u Inr c show ?thesis by simp
    qed
  qed
qed

text \<open>
  C7, as amended. Whenever the lower bound is not above the upper one, the brightness
  target of every tick lies within \<open>[min_brightness, max_brightness]\<close>, whatever the
  frame. The brightness pushed is the smoothed one, which starts at 60: over every
  sequence of ticks (any frames, any calls of \<^verbatim>\<open>set_user_brightness\<close> between them)
  every pushed brightness lies within the bounds provided the bounds enclose 60 and the
  smoothing factor lies in \<open>[0, 1]\<close>, as the default settings (10, 80, 0.4) do.
\<close>

theorem screen_brightness_within_bounds:
  "(min_brightness settings \<le> max_brightness settings \<and>
    get_weighted_avg_color settings ub avg = Inr (h, s, b) \<longrightarrow>
      min_brightness settings \<le> b \<and> b \<le> max_brightness settings) \<and>
   (min_brightness settings \<le> 60 \<and> 60 \<le> max_brightness settings \<and>
    0 \<le> smoothing_factor settings \<and> smoothing_factor settings \<le> 1 \<longrightarrow>
      (\<forall>col \<in> set (fst (screen_run (ScreenSyncEngine_init settings) ticks)).
         min_brightness settings \<le> pushed_brightness col \<and>
         pushed_brightness col \<le> max_brightness settings))"
proof (intro conjI impI)
  assume "min_brightness settings \<le> max_brightness settings \<and>
    get_weighted_avg_color settings ub avg = Inr (h, s, b)"
  then show "min_brightness settings \<le> b" "b \<le> max_brightness settings"
    using target_brightness_clamped by blast+
next
  assume a: "min_brightness settings \<le> 60 \<and> 60 \<le> max_brightness settings \<and>
    0 \<le> smoothing_factor settings \<and> smoothing_factor settings \<le> 1"
  then have "bright_ok settings (ScreenSyncEngine_init settings)"
    by (simp add: bright_ok_def ScreenSyncEngine_init_def)
  from screen_loop_bright [OF _ _ this, of ticks] a
  show "\<forall>col \<in> set (fst (screen_run (ScreenSyncEngine_init settings) ticks)).
         min_brightness settings \<le> pushed_brightness col \<and>
         pushed_brightness col \<le> max_brightness settings"
    by (simp add: screen_run_def)
qed

lemma white_frame_dim:
  "fst (screen_run (ScreenSyncEngine_init dim_settings) [Capture (255, 255, 255) True]) = [(0, 34, 56)]"
  by (simp add: screen_run_def ScreenSyncEngine_init_def dim_settings_def ScreenSettings_def
      update_colors_def get_weighted_avg_color_def apply_gamma_correction_def gamma_channel_def
      py_pow_def rgb_to_hsv_def lerp_def lerp_hue_def py_mod_def py_int_def Let_def)

lemma black_white_default:
  "fst (screen_run (ScreenSyncEngine_init ScreenSettings) [Capture (0, 0, 0) True, Capture (255, 255, 255) True])
     = [(0, 34, 40), (0, 24, 56)]"
  by (simp add: screen_run_def ScreenSyncEngine_init_def ScreenSettings_def
      update_colors_def get_weighted_avg_color_def apply_gamma_correction_def gamma_channel_def
      py_pow_def rgb_to_hsv_def lerp_def lerp_hue_def py_mod_def py_int_def Let_def)


lemma white_target_default:
  "get_weighted_avg_color ScreenSettings 80 (255, 255, 255) = Inr (0, 10, 80)"
  by (simp add: ScreenSettings_def get_weighted_avg_color_def apply_gamma_correction_def
      gamma_channel_def py_pow_def rgb_to_hsv_def py_int_def Let_def)

text \<open>
  C7, witness: the default settings, an all-black frame and then an all-white one.
\<close>

theorem screen_brightness_within_bounds_witness:
  "min_brightness ScreenSettings \<le> max_brightness ScreenSettings \<and>
   get_weighted_avg_color ScreenSettings 80 (255, 255, 255) = Inr (0, 10, 80) \<and>
   min_brightness ScreenSettings \<le> 80 \<and> 80 \<le> max_brightness ScreenSettings \<and>
   min_brightness ScreenSettings \<le> 60 \<and> 60 \<le> max_brightness ScreenSettings \<and>
   0 \<le> smoothing_factor ScreenSettings \<and> smoothing_factor ScreenSettings \<le> 1 \<and>
   fst (screen_run (ScreenSyncEngine_init ScreenSettings)
          [Capture (0, 0, 0) True, Capture (255, 255, 255) True]) = [(0, 34, 40), (0, 24, 56)] \<and>
   min_brightness ScreenSettings \<le> pushed_brightness (0, 24, 56) \<and>
   pushed_brightness (0, 24, 56) \<le> max_brightness ScreenSettings"
proof -
  have a: "min_brightness ScreenSettings \<le> max_brightness ScreenSettings"
    and b: "min_brightness ScreenSettings \<le> 60 \<and> 60 \<le> max_brightness ScreenSettings \<and>
      0 \<le> smoothing_factor ScreenSettings \<and> smoothing_factor ScreenSettings \<le> 1"
    by (simp_all add: ScreenSettings_def)
  note t = screen_brightness_within_bounds [of ScreenSettings 80 "(255, 255, 255)" 0 10 80
      "[Capture (0, 0, 0) True, Capture (255, 255, 255) True]"]
  from t a white_target_default
  have 1: "min_brightness ScreenSettings \<le> 80 \<and> 80 \<le> max_brightness ScreenSettings"
    by blast
  from t b have "\<forall>col \<in> set (fst (screen_run (ScreenSyncEngine_init ScreenSettings)
          [Capture (0, 0, 0) True, Capture (255, 255, 255) True])).
         min_brightness ScreenSettings \<le> pushed_brightness col \<and>
         pushed_brightness col \<le> max_brightness ScreenSettings"
    by blast
  then have 2: "min_brightness ScreenSettings \<le> pushed_brightness (0, 24, 56) \<and>
      pushed_brightness (0, 24, 56) \<le> max_brightness ScreenSettings"
    by (simp add: black_white_default)
  from a b 1 2 white_target_default black_white_default show ?thesis by blast
qed

lemma black_frame_eager:
  "fst (screen_run (ScreenSyncEngine_init eager_settings) [Capture (0, 0, 0) True]) = [(0, - 10, - 15)]"
  by (simp add: screen_run_def ScreenSyncEngine_init_def eager_settings_def ScreenSettings_def
      update_colors_def get_weighted_avg_color_def apply_gamma_correction_def gamma_channel_def
      py_pow_def rgb_to_hsv_def lerp_def lerp_hue_def py_mod_def py_int_def Let_def)

text \<open>
  C7, counterexample to the claim as stated: with \<^verbatim>\<open>max_brightness = 50\<close> (the other
  settings at their defaults) the first tick on an all-white frame has the target 50, the
  smoothed brightness moves from 60 to 56, and 56 is pushed. And with the default bounds
  but \<^verbatim>\<open>smoothing_factor = 1.5\<close> the first tick on an all-black frame overshoots the
  target 10: the smoothed brightness moves from 60 to -15, below \<^verbatim>\<open>min_brightness\<close>.
\<close>

theorem dim_settings_brightness_counterexample:
  "fst (screen_run (ScreenSyncEngine_init dim_settings) [Capture (255, 255, 255) True]) = [(0, 34, 56)] \<and>
   pushed_brightness (0, 34, 56) = 56 \<and>
   max_brightness dim_settings = 50 \<and>
   max_brightness dim_settings < pushed_brightness (0, 34, 56) \<and>
   fst (screen_run (ScreenSyncEngine_init eager_settings) [Capture (0, 0, 0) True]) = [(0, - 10, - 15)] \<and>
   min_brightness eager_settings = 10 \<and>
   pushed_brightness (0, - 10, - 15) < min_brightness eager_settings"
  by (simp add: white_frame_dim black_frame_eager pushed_brightness_def)
     (simp add: dim_settings_def eager_settings_def ScreenSettings_def)

end
